theory Spec2Isabelle
  imports Complex_Main
begin

section \<open>Conventions\<close>

text \<open>
  Python floats are modelled as \<^typ>\<open>real\<close>: rounding and overflow are not followed, and a
  value of type \<^typ>\<open>real\<close> is a finite float. A run of the source in which an operation
  on finite floats gives an infinity or NaN (numpy divides by zero with a warning, not an
  exception) is followed only where a definition says so (\<open>np_true_divide\<close>); elsewhere the
  theorems are about the runs in which every number is finite. Where the source has to cope with missing or
  non-finite numbers (the implied-volatility column handed to the calibration), the array
  elements are of type \<open>npfloat\<close> below. Exceptions are values: a function that can raise
  returns \<open>error + 'a\<close>, with \<open>Inl\<close> the exception.

  The simple array routines of numpy and scipy that the source calls (\<open>linspace\<close>,
  \<open>gradient\<close>, \<open>trapezoid\<close>, \<open>cumulative_trapezoid\<close>, \<open>maximum\<close>, \<open>interp\<close>,
  \<open>interp1d\<close>, \<open>cosine\<close>) are written out from their documented behaviour. The heavy
  library routines (\<open>scipy.optimize.minimize\<close>, \<open>CubicSpline\<close>, \<open>savgol_filter\<close>,
  \<open>norm.cdf\<close>) are fields of the record \<open>library\<close>, and every theorem holds for whatever
  these fields are.
\<close>

datatype error = ValueError string | LibraryError string

section \<open>numpy and scipy array routines\<close>

text \<open>\<open>np.linspace(start, stop, num)\<close>: \<open>num\<close> equally spaced points, both ends included.\<close>

definition linspace :: "real \<Rightarrow> real \<Rightarrow> nat \<Rightarrow> real list" where
  "linspace start stop num =
     map (\<lambda>i. start + real i * ((stop - start) / real (num - 1))) [0..<num]"

text \<open>
  \<open>trapezoid(y, x)\<close>: the sum of \<open>(x[i+1] - x[i]) * (y[i+1] + y[i]) / 2\<close>; it is 0 for
  fewer than two points. The two arrays have the same length at every call of the source.
\<close>

fun trapezoid :: "real list \<Rightarrow> real list \<Rightarrow> real" where
  "trapezoid (y0 # y1 # ys) (x0 # x1 # xs) =
     (x1 - x0) * (y0 + y1) / 2 + trapezoid (y1 # ys) (x1 # xs)"
| "trapezoid _ _ = 0"

text \<open>
  \<open>cumulative_trapezoid(y, x, initial=0)\<close>: the running trapezoidal sums, with the initial
  value put in front, so the result is as long as \<open>y\<close>; \<open>cumtrapz_from acc\<close> is the running
  sum started at \<open>acc\<close>.
\<close>

fun cumtrapz_from :: "real \<Rightarrow> real list \<Rightarrow> real list \<Rightarrow> real list" where
  "cumtrapz_from acc (y0 # y1 # ys) (x0 # x1 # xs) =
     (let acc' = acc + (x1 - x0) * (y0 + y1) / 2
      in acc' # cumtrapz_from acc' (y1 # ys) (x1 # xs))"
| "cumtrapz_from acc _ _ = []"

definition cumulative_trapezoid :: "real list \<Rightarrow> real list \<Rightarrow> real list" where
  "cumulative_trapezoid y x = (if y = [] \<or> x = [] then [] else 0 # cumtrapz_from 0 y x)"

text \<open>
  \<open>np.gradient(f, x)\<close> with the default \<open>edge_order=1\<close>: one-sided differences at the two
  ends, and in the interior the second-order formula for unevenly spaced coordinates (on an
  evenly spaced grid it is the central difference). It raises for fewer than two points.
\<close>

definition central_diff :: "real \<Rightarrow> real \<Rightarrow> real \<Rightarrow> real \<Rightarrow> real \<Rightarrow> real \<Rightarrow> real" where
  "central_diff f0 f1 f2 x0 x1 x2 =
     (let dx1 = x1 - x0; dx2 = x2 - x1;
          a = - dx2 / (dx1 * (dx1 + dx2));
          b = (dx2 - dx1) / (dx1 * dx2);
          c = dx1 / (dx2 * (dx1 + dx2))
      in a * f0 + b * f1 + c * f2)"

fun gradient_tail :: "real list \<Rightarrow> real list \<Rightarrow> real list" where
  "gradient_tail (f0 # f1 # f2 # fs) (x0 # x1 # x2 # xs) =
     central_diff f0 f1 f2 x0 x1 x2 # gradient_tail (f1 # f2 # fs) (x1 # x2 # xs)"
| "gradient_tail [f0, f1] [x0, x1] = [(f1 - f0) / (x1 - x0)]"
| "gradient_tail _ _ = []"

definition np_gradient :: "real list \<Rightarrow> real list \<Rightarrow> error + real list" where
  "np_gradient f x =
     (if length x \<noteq> length f then
        Inl (ValueError ''when 1d, distances must match the length of the corresponding dimension'')
      else if length f < 2 then
        Inl (ValueError ''Shape of array too small to calculate a numerical gradient, at least (edge_order + 1) elements are required.'')
      else Inr ((f ! 1 - f ! 0) / (x ! 1 - x ! 0) # gradient_tail f x))"

text \<open>\<open>np.maximum(a, 0)\<close>, elementwise.\<close>

definition np_maximum0 :: "real list \<Rightarrow> real list" where
  "np_maximum0 a = map (\<lambda>v. max v 0) a"

section \<open>The library routines that are parameters\<close>

datatype opt_method = Nelder_Mead | L_BFGS_B

text \<open>
  The result of \<open>minimize\<close>: its fields \<open>x\<close> (the parameter vector \<open>(alpha, rho, nu)\<close>)
  and \<open>success\<close>.
\<close>

record opt_result =
  opt_x :: "real \<times> real \<times> real"
  opt_success :: bool

record library =
  minimize :: "opt_method \<Rightarrow> (real \<times> real \<times> real \<Rightarrow> real) \<Rightarrow> real \<times> real \<times> real
                 \<Rightarrow> error + opt_result"
  CubicSpline :: "real list \<Rightarrow> real list \<Rightarrow> error + (real \<Rightarrow> real)"
  savgol_filter :: "real list \<Rightarrow> int \<Rightarrow> nat \<Rightarrow> error + real list"
  norm_cdf :: "real \<Rightarrow> real"

section \<open>sabr.py: calibration of the volatility surface\<close>

text \<open>
  An entry of the implied-volatility array: a finite float, an infinity or NaN. The
  comparisons below are numpy's: every comparison with NaN is false.
\<close>

datatype npfloat = Fin real | PosInf | NegInf | NaN

fun np_gt0 :: "npfloat \<Rightarrow> bool" where
  "np_gt0 (Fin v) = (v > 0)"
| "np_gt0 PosInf = True"
| "np_gt0 NegInf = False"
| "np_gt0 NaN = False"

fun np_isfinite :: "npfloat \<Rightarrow> bool" where
  "np_isfinite (Fin v) = True"
| "np_isfinite _ = False"

fun finite_value :: "npfloat \<Rightarrow> real" where
  "finite_value (Fin v) = v"
| "finite_value _ = 0"

text \<open>
  The two parallel arrays \<open>strikes\<close> and \<open>implied_vols\<close> are one list of pairs.
  \<open>valid_mask\<close> is \<open>(implied_vols > 0) & (strikes > 0) & np.isfinite(implied_vols)\<close>, and
  \<open>apply_mask\<close> is the indexing of both arrays by it; the entries that are kept are finite.
\<close>

definition valid_mask :: "real \<times> npfloat \<Rightarrow> bool" where
  "valid_mask p = (np_gt0 (snd p) \<and> fst p > 0 \<and> np_isfinite (snd p))"

definition apply_mask :: "(real \<times> npfloat) list \<Rightarrow> (real \<times> real) list" where
  "apply_mask pts = map (\<lambda>p. (fst p, finite_value (snd p))) (filter valid_mask pts)"

definition SABR_BETA :: real where "SABR_BETA = 0.5"
definition SABR_INITIAL_ALPHA :: real where "SABR_INITIAL_ALPHA = 0.2"
definition SABR_INITIAL_RHO :: real where "SABR_INITIAL_RHO = - 0.3"
definition SABR_INITIAL_NU :: real where "SABR_INITIAL_NU = 0.3"

text \<open>
  \<open>_sabr_formula\<close>, for one strike (\<open>sabr_vol\<close>) and for an array. The inner
  \<open>try/except\<close> of the source has no branch here: arithmetic on numpy floats does not raise.
\<close>

definition sabr_vol :: "real \<Rightarrow> real \<Rightarrow> real \<Rightarrow> real \<Rightarrow> real \<Rightarrow> real \<Rightarrow> real \<Rightarrow> real" where
  "sabr_vol K F alpha rho nu beta tau =
     (let atm_vol = alpha / (F powr (1 - beta)) in
      if \<bar>K - F\<bar> < 1 / 10 ^ 6 then
        atm_vol * (1 + ((1 - beta)\<^sup>2 / 24 * alpha\<^sup>2 / F powr (2 - 2 * beta) +
                        0.25 * rho * beta * nu * alpha / F powr (1 - beta) +
                        (2 - 3 * rho\<^sup>2) / 24 * nu\<^sup>2) * tau)
      else
        (let FK = F * K;
             log_FK = ln (F / K);
             z = (nu / alpha) * FK powr ((1 - beta) / 2) * log_FK;
             x_z0 = ln ((sqrt (1 - 2 * rho * z + z\<^sup>2) + z - rho) / (1 - rho));
             x_z = (if \<bar>x_z0\<bar> < 1 / 10 ^ 10 then z else x_z0);
             num = alpha;
             denom = FK powr ((1 - beta) / 2) *
                       (1 + (1 - beta)\<^sup>2 / 24 * log_FK\<^sup>2 + (1 - beta) ^ 4 / 1920 * log_FK ^ 4);
             vol_term = num / denom * (z / x_z);
             correction = 1 + ((1 - beta)\<^sup>2 / 24 * alpha\<^sup>2 / FK powr (1 - beta) +
                               0.25 * rho * beta * nu * alpha / FK powr ((1 - beta) / 2) +
                               (2 - 3 * rho\<^sup>2) / 24 * nu\<^sup>2) * tau
         in vol_term * correction))"

definition sabr_formula ::
  "real list \<Rightarrow> real \<Rightarrow> real \<Rightarrow> real \<Rightarrow> real \<Rightarrow> real \<Rightarrow> real \<Rightarrow> real list" where
  "sabr_formula Ks F alpha rho nu beta tau = map (\<lambda>K. sabr_vol K F alpha rho nu beta tau) Ks"

text \<open>\<open>np.mean\<close> of a non-empty array, and the two error measures of a fit.\<close>

definition np_mean :: "real list \<Rightarrow> real" where
  "np_mean a = sum_list a / real (length a)"

definition fit_rmse :: "real list \<Rightarrow> real list \<Rightarrow> real" where
  "fit_rmse model_vols vols = sqrt (np_mean (map (\<lambda>(m, v). (m - v)\<^sup>2) (zip model_vols vols)))"

definition fit_mae :: "real list \<Rightarrow> real list \<Rightarrow> real" where
  "fit_mae model_vols vols = np_mean (map (\<lambda>(m, v). \<bar>m - v\<bar>) (zip model_vols vols))"

text \<open>The state of a \<open>SABRModel\<close> object after \<open>calibrate\<close>.\<close>

record sabr_model =
  sabr_beta :: real
  sabr_alpha :: real
  sabr_rho :: real
  sabr_nu :: real
  sabr_forward :: real
  sabr_tau :: real
  is_calibrated :: bool

text \<open>
  The calibrated model is one of the two classes; a \<open>CubicSplineInterpolator\<close> holds the
  spline object that the library built. The statistics dictionary has the keys of the class
  that made it.
\<close>

datatype vol_model = SABRModel sabr_model | CubicSplineInterpolator "real \<Rightarrow> real"

datatype fit_stats =
    SabrStats (st_alpha: real) (st_rho: real) (st_nu: real) (st_beta: real)
              (st_rmse: real) (st_mae: real) (st_success: bool)
  | SplineStats (st_rmse: real) (st_success: bool)

definition objective ::
  "(real \<times> real) list \<Rightarrow> real \<Rightarrow> real \<Rightarrow> real \<Rightarrow> real \<times> real \<times> real \<Rightarrow> real" where
  "objective valid forward beta tau params =
     (case params of (alpha, rho, nu) \<Rightarrow>
        if alpha \<le> 0 \<or> nu \<le> 0 \<or> rho < - 1 \<or> rho > 1 then 10 ^ 10
        else sum_list (map (\<lambda>(m, v). (m - v)\<^sup>2)
               (zip (sabr_formula (map fst valid) forward alpha rho nu beta tau) (map snd valid))))"

text \<open>\<open>SABRModel.get_volatility\<close>.\<close>

definition sabr_get_volatility :: "sabr_model \<Rightarrow> real list \<Rightarrow> error + real list" where
  "sabr_get_volatility m Ks =
     (if \<not> is_calibrated m then
        Inl (ValueError ''Model must be calibrated before getting volatilities'')
      else Inr (sabr_formula Ks (sabr_forward m) (sabr_alpha m) (sabr_rho m) (sabr_nu m)
                  (sabr_beta m) (sabr_tau m)))"

text \<open>
  \<open>SABRModel.calibrate\<close> on a fresh \<open>SABRModel()\<close>: the mask, the count check, the simplex
  search, the bounded search when the first does not report success, and then the
  parameters of whatever result is at hand are stored.
\<close>

definition sabr_calibrate ::
  "library \<Rightarrow> (real \<times> npfloat) list \<Rightarrow> real \<Rightarrow> real \<Rightarrow> error + sabr_model \<times> fit_stats" where
  "sabr_calibrate lib pts forward tau =
     (let valid = apply_mask pts;
          initial_guess = (SABR_INITIAL_ALPHA, SABR_INITIAL_RHO, SABR_INITIAL_NU);
          obj = objective valid forward SABR_BETA tau
      in
      if length valid < 3 then Inl (ValueError ''Need at least 3 valid strikes for calibration'')
      else
        (case minimize lib Nelder_Mead obj initial_guess of Inl e \<Rightarrow> Inl e
         | Inr result1 \<Rightarrow>
        (case (if \<not> opt_success result1 then minimize lib L_BFGS_B obj initial_guess
               else Inr result1) of Inl e \<Rightarrow> Inl e
         | Inr result \<Rightarrow>
           (case opt_x result of (a, rh, n) \<Rightarrow>
              (let m = \<lparr>sabr_beta = SABR_BETA, sabr_alpha = a, sabr_rho = rh, sabr_nu = n,
                        sabr_forward = forward, sabr_tau = tau, is_calibrated = True\<rparr>
               in case sabr_get_volatility m (map fst valid) of Inl e \<Rightarrow> Inl e
                  | Inr model_vols \<Rightarrow>
                      Inr (m, SabrStats a rh n SABR_BETA
                                (fit_rmse model_vols (map snd valid))
                                (fit_mae model_vols (map snd valid))
                                (opt_success result)))))))"

text \<open>
  \<open>CubicSplineInterpolator.calibrate\<close>: the same mask, a sort by strike, and the library's
  spline through what is left. There is no count check on this path.
\<close>

definition spline_calibrate ::
  "library \<Rightarrow> (real \<times> npfloat) list \<Rightarrow> error + (real \<Rightarrow> real) \<times> fit_stats" where
  "spline_calibrate lib pts =
     (let valid = sort_key fst (apply_mask pts) in
      case CubicSpline lib (map fst valid) (map snd valid) of Inl e \<Rightarrow> Inl e
      | Inr spline \<Rightarrow>
          Inr (spline, SplineStats (fit_rmse (map spline (map fst valid)) (map snd valid)) True))"

text \<open>
  \<open>calibrate_volatility_surface\<close>: with method \<open>sabr\<close> any exception of the SABR calibration
  is caught and the method becomes \<open>spline\<close>.
\<close>

definition calibrate_volatility_surface ::
  "library \<Rightarrow> (real \<times> npfloat) list \<Rightarrow> real \<Rightarrow> real \<Rightarrow> string \<Rightarrow> error + vol_model \<times> fit_stats" where
  "calibrate_volatility_surface lib pts forward tau method =
     (let spline_path =
            (case spline_calibrate lib pts of Inl e \<Rightarrow> Inl e
             | Inr (spline, stats) \<Rightarrow> Inr (CubicSplineInterpolator spline, stats))
      in
      if method = ''sabr'' then
        (case sabr_calibrate lib pts forward tau of
           Inr (m, stats) \<Rightarrow> Inr (SABRModel m, stats)
         | Inl e \<Rightarrow> spline_path)
      else if method = ''spline'' then spline_path
      else Inl (ValueError (''Unknown method: '' @ method)))"

text \<open>\<open>get_volatility\<close> of either class; a spline object is evaluated at every strike.\<close>

fun get_volatility :: "vol_model \<Rightarrow> real list \<Rightarrow> error + real list" where
  "get_volatility (SABRModel m) Ks = sabr_get_volatility m Ks"
| "get_volatility (CubicSplineInterpolator spline) Ks = Inr (map spline Ks)"


section \<open>breeden\_litz.py: from the price curve to the density\<close>

text \<open>
  \<open>_breeden_litzenberger\<close>: the second derivative of the price curve times \<open>e^(rT)\<close>,
  clipped at 0, then smoothed and clipped again when the window has at least 5 points. An
  exception of the filter is swallowed and the clipped, unsmoothed array is returned.
\<close>

definition window_length :: "real list \<Rightarrow> int" where
  "window_length pdf =
     min 51 (if int (length pdf) mod 2 = 1 then int (length pdf) else int (length pdf) - 1)"

definition breeden_litzenberger ::
  "library \<Rightarrow> real list \<Rightarrow> real list \<Rightarrow> real \<Rightarrow> real \<Rightarrow> error + real list" where
  "breeden_litzenberger lib strikes call_prices r T =
     (case np_gradient strikes (map real [0..<length strikes]) of Inl e \<Rightarrow> Inl e
      | Inr dK \<Rightarrow>
     (case np_gradient call_prices strikes of Inl e \<Rightarrow> Inl e
      | Inr dC_dK \<Rightarrow>
     (case np_gradient dC_dK strikes of Inl e \<Rightarrow> Inl e
      | Inr d2C_dK2 \<Rightarrow>
        (let pdf = np_maximum0 (map (\<lambda>d. exp (r * T) * d) d2C_dK2) in
         if window_length pdf \<ge> 5 then
           (case savgol_filter lib pdf (window_length pdf) 3 of
              Inl e \<Rightarrow> Inr pdf
            | Inr smoothed \<Rightarrow> Inr (np_maximum0 smoothed))
         else Inr pdf))))"

text \<open>\<open>_normalize_pdf\<close>: divide by the trapezoidal integral, which must be positive.\<close>

definition normalize_pdf :: "real list \<Rightarrow> real list \<Rightarrow> error + real list" where
  "normalize_pdf strikes pdf =
     (let integral = trapezoid pdf strikes in
      if integral \<le> 0 then Inl (ValueError ''PDF integral is zero or negative - invalid PDF'')
      else Inr (map (\<lambda>p. p / integral) pdf))"

text \<open>
  \<open>_calculate_cdf\<close>: the cumulative integral, divided by its last entry when that is
  positive. The array is never empty here, so \<open>cdf[-1]\<close> is \<^const>\<open>last\<close>.
\<close>

definition calculate_cdf :: "real list \<Rightarrow> real list \<Rightarrow> real list" where
  "calculate_cdf strikes pdf =
     (let cdf = cumulative_trapezoid pdf strikes in
      if last cdf > 0 then map (\<lambda>c. c / last cdf) cdf else cdf)"

text \<open>
  \<open>_black_scholes_call\<close> and \<open>_black_scholes_put\<close>, vectorised over the strike grid and the
  volatilities at its points.
\<close>

definition bs_d1 :: "real \<Rightarrow> real \<Rightarrow> real \<Rightarrow> real \<Rightarrow> real \<Rightarrow> real" where
  "bs_d1 K S r T sigma = (ln (S / K) + (r + 0.5 * sigma\<^sup>2) * T) / (sigma * sqrt T)"

definition bs_d2 :: "real \<Rightarrow> real \<Rightarrow> real \<Rightarrow> real \<Rightarrow> real \<Rightarrow> real" where
  "bs_d2 K S r T sigma = bs_d1 K S r T sigma - sigma * sqrt T"

definition black_scholes_call ::
  "library \<Rightarrow> real list \<Rightarrow> real \<Rightarrow> real \<Rightarrow> real \<Rightarrow> real list \<Rightarrow> real list" where
  "black_scholes_call lib Ks S r T sigmas =
     map (\<lambda>(K, sigma). S * norm_cdf lib (bs_d1 K S r T sigma)
                         - K * exp (- r * T) * norm_cdf lib (bs_d2 K S r T sigma))
         (zip Ks sigmas)"

definition black_scholes_put ::
  "library \<Rightarrow> real list \<Rightarrow> real \<Rightarrow> real \<Rightarrow> real \<Rightarrow> real list \<Rightarrow> real list" where
  "black_scholes_put lib Ks S r T sigmas =
     map (\<lambda>(K, sigma). K * exp (- r * T) * norm_cdf lib (- bs_d2 K S r T sigma)
                         - S * norm_cdf lib (- bs_d1 K S r T sigma))
         (zip Ks sigmas)"

section \<open>config/constants.py\<close>

record constants =
  MIN_STRIKE_PCT :: real
  MAX_STRIKE_PCT :: real
  MIN_STRIKES_FOR_PDF :: nat
  PDF_GRID_POINTS :: nat

definition default_constants :: constants where
  "default_constants =
     \<lparr>MIN_STRIKE_PCT = 0.80, MAX_STRIKE_PCT = 1.20, MIN_STRIKES_FOR_PDF = 10,
      PDF_GRID_POINTS = 500\<rparr>"

section \<open>breeden\_litz.py: \<open>calculate_from_options\<close> and the queries\<close>

text \<open>A row of the options data frame.\<close>

record quote =
  strike :: real
  price :: real
  impliedVolatility :: npfloat

text \<open>The attributes of a \<open>BreedenlitzenbergPDF\<close> object; \<open>None\<close> until they are set.\<close>

record extractor =
  stored_pdf :: "real list option"
  stored_strikes :: "real list option"
  stored_cdf :: "real list option"
  stored_spot :: "real option"
  stored_params :: "(real \<times> real \<times> string) option"

definition init_extractor :: extractor where
  "init_extractor =
     \<lparr>stored_pdf = None, stored_strikes = None, stored_cdf = None, stored_spot = None,
      stored_params = None\<rparr>"

text \<open>\<open>str(n)\<close> of a natural number, for the messages built with f-strings.\<close>

definition digit_char :: "nat \<Rightarrow> char" where
  "digit_char d = ''0123456789'' ! d"

function str_nat :: "nat \<Rightarrow> string" where
  "str_nat n = (if n < 10 then [digit_char n] else str_nat (n div 10) @ [digit_char (n mod 10)])"
  by pat_completeness auto
termination
  by (relation "measure id") auto

declare str_nat.simps [simp del]

definition need_strikes_message :: "nat \<Rightarrow> nat \<Rightarrow> string" where
  "need_strikes_message required found =
     ''Need at least '' @ str_nat required @ '' strikes, got '' @ str_nat found"

text \<open>
  The rows that pass the filter of \<open>calculate_from_options\<close>: strike inside the band around
  the spot price, and a positive price.
\<close>

definition filter_quotes :: "constants \<Rightarrow> real \<Rightarrow> quote list \<Rightarrow> quote list" where
  "filter_quotes cfg spot_price options_df =
     filter (\<lambda>q. strike q \<ge> spot_price * MIN_STRIKE_PCT cfg \<and>
                  strike q \<le> spot_price * MAX_STRIKE_PCT cfg \<and>
                  price q > 0) options_df"

text \<open>
  \<open>calculate_from_options\<close>, with the object passed in and returned: the first component
  is what the call returns or raises, the second the object afterwards. The branch that
  would build \<open>price\<close> from \<open>bid\<close> and \<open>ask\<close> is never taken, the column \<open>price\<close> being
  there already, and it is left out.
\<close>

definition calculate_from_options ::
  "library \<Rightarrow> constants \<Rightarrow> extractor \<Rightarrow> quote list \<Rightarrow> real \<Rightarrow> real \<Rightarrow> real \<Rightarrow> string \<Rightarrow> string
     \<Rightarrow> (error + real list \<times> real list) \<times> extractor" where
  "calculate_from_options lib cfg self options_df spot_price risk_free_rate time_to_expiry
       option_type interpolation_method =
     (let self1 = self\<lparr>stored_spot := Some spot_price,
                       stored_params := Some (risk_free_rate, time_to_expiry, option_type)\<rparr>;
          min_strike = spot_price * MIN_STRIKE_PCT cfg;
          max_strike = spot_price * MAX_STRIKE_PCT cfg;
          df = filter_quotes cfg spot_price options_df
      in
      if length df < MIN_STRIKES_FOR_PDF cfg then
        (Inl (ValueError (need_strikes_message (MIN_STRIKES_FOR_PDF cfg) (length df))), self1)
      else
        (let df = sort_key strike df;
             market_strikes = map strike df;
             market_ivs = map impliedVolatility df;
             forward = spot_price * exp (risk_free_rate * time_to_expiry)
         in
         case calibrate_volatility_surface lib (zip market_strikes market_ivs) forward
                time_to_expiry interpolation_method of
           Inl e \<Rightarrow> (Inl e, self1)
         | Inr (vol_model, vol_stats) \<Rightarrow>
         (let strike_grid = linspace min_strike max_strike (PDF_GRID_POINTS cfg) in
          case get_volatility vol_model strike_grid of
            Inl e \<Rightarrow> (Inl e, self1)
          | Inr interp_ivs \<Rightarrow>
          (let interp_prices =
                 (if option_type = ''call'' then
                    black_scholes_call lib strike_grid spot_price risk_free_rate time_to_expiry
                      interp_ivs
                  else
                    black_scholes_put lib strike_grid spot_price risk_free_rate time_to_expiry
                      interp_ivs)
           in
           case breeden_litzenberger lib strike_grid interp_prices risk_free_rate
                  time_to_expiry of
             Inl e \<Rightarrow> (Inl e, self1)
           | Inr pdf0 \<Rightarrow>
           (case normalize_pdf strike_grid pdf0 of
              Inl e \<Rightarrow> (Inl e, self1)
            | Inr pdf \<Rightarrow>
                (Inr (strike_grid, pdf),
                 self1\<lparr>stored_strikes := Some strike_grid, stored_pdf := Some pdf,
                       stored_cdf := Some (calculate_cdf strike_grid pdf)\<rparr>))))))"





section \<open>numpy's interpolation and division\<close>

text \<open>
  \<open>np.interp(x, xp, fp)\<close> for increasing sample points \<open>xp\<close>: the last value to the right
  of the data, the first value to the left of it, and in between the value on the segment
  that starts at the last sample point not above \<open>x\<close>. The arrays are not empty and have
  the same length where the source calls it.
\<close>

fun interp_search :: "real \<Rightarrow> (real \<times> real) list \<Rightarrow> real" where
  "interp_search v ((x0, y0) # (x1, y1) # rest) =
     (if v < x1 then (if x0 = v then y0 else (y1 - y0) / (x1 - x0) * (v - x0) + y0)
      else interp_search v ((x1, y1) # rest))"
| "interp_search v [(x0, y0)] = y0"
| "interp_search v [] = 0"

definition np_interp :: "real \<Rightarrow> real list \<Rightarrow> real list \<Rightarrow> real" where
  "np_interp v xp fp =
     (if v > last xp then last fp
      else if v < hd xp then hd fp
      else interp_search v (zip xp fp))"

text \<open>
  The quotient of two finite floats as numpy computes it: a division by zero does not
  raise, it gives NaN for \<open>0 / 0\<close> and an infinity otherwise.
\<close>

definition np_true_divide :: "real \<Rightarrow> real \<Rightarrow> npfloat" where
  "np_true_divide a b =
     (if b = 0 then (if a = 0 then NaN else if a > 0 then PosInf else NegInf)
      else Fin (a / b))"

section \<open>statistics.py\<close>

text \<open>
  The methods of \<open>PDFStatistics\<close>, with the attributes \<open>strikes\<close> and \<open>pdf\<close> as
  arguments. An optional argument left out is \<open>None\<close>.
\<close>

definition calculate_mean :: "real list \<Rightarrow> real list \<Rightarrow> real" where
  "calculate_mean strikes pdf = trapezoid (map (\<lambda>(k, p). k * p) (zip strikes pdf)) strikes"

definition calculate_variance :: "real list \<Rightarrow> real list \<Rightarrow> real option \<Rightarrow> real" where
  "calculate_variance strikes pdf mean_opt =
     (let mean = (case mean_opt of None \<Rightarrow> calculate_mean strikes pdf | Some m \<Rightarrow> m)
      in trapezoid (map (\<lambda>(k, p). (k - mean)\<^sup>2 * p) (zip strikes pdf)) strikes)"

definition calculate_skewness ::
  "real list \<Rightarrow> real list \<Rightarrow> real option \<Rightarrow> real option \<Rightarrow> real" where
  "calculate_skewness strikes pdf mean_opt std_opt =
     (let mean = (case mean_opt of None \<Rightarrow> calculate_mean strikes pdf | Some m \<Rightarrow> m);
          std = (case std_opt of None \<Rightarrow> sqrt (calculate_variance strikes pdf (Some mean))
                 | Some sd \<Rightarrow> sd)
      in if std = 0 then 0
         else (let third_moment = trapezoid (map (\<lambda>(k, p). (k - mean) ^ 3 * p) (zip strikes pdf))
                                    strikes
               in third_moment / std ^ 3))"

definition calculate_kurtosis ::
  "real list \<Rightarrow> real list \<Rightarrow> real option \<Rightarrow> real option \<Rightarrow> real" where
  "calculate_kurtosis strikes pdf mean_opt std_opt =
     (let mean = (case mean_opt of None \<Rightarrow> calculate_mean strikes pdf | Some m \<Rightarrow> m);
          std = (case std_opt of None \<Rightarrow> sqrt (calculate_variance strikes pdf (Some mean))
                 | Some sd \<Rightarrow> sd)
      in if std = 0 then 0
         else (let fourth_moment = trapezoid (map (\<lambda>(k, p). (k - mean) ^ 4 * p) (zip strikes pdf))
                                     strikes
               in fourth_moment / std ^ 4 - 3))"

text \<open>
  \<open>calculate_percentile\<close>. Its first two statements build the CDF and divide it by its
  last entry, with no test of that entry: \<open>percentile_cdf\<close>. The interpolation of the
  strike at \<open>percentile / 100\<close> is followed when all sample points are finite; on sample
  points that are not, numpy's result is not a number computed from a CDF, and it is NaN
  here.
\<close>

definition percentile_cdf :: "real list \<Rightarrow> real list \<Rightarrow> npfloat list" where
  "percentile_cdf strikes pdf =
     (let cdf = cumulative_trapezoid pdf strikes
      in map (\<lambda>c. np_true_divide c (last cdf)) cdf)"

definition calculate_percentile :: "real list \<Rightarrow> real list \<Rightarrow> real \<Rightarrow> npfloat" where
  "calculate_percentile strikes pdf percentile =
     (let cdf = percentile_cdf strikes pdf;
          percentile_val = percentile / 100
      in if list_all np_isfinite cdf
         then Fin (np_interp percentile_val (map finite_value cdf) strikes)
         else NaN)"

section \<open>patterns.py: the shape similarity\<close>









section \<open>A small worked example\<close>

text \<open>
  A library and a configuration on which the whole of \<open>calculate_from_options\<close> can be
  computed by hand: three quotes with implied volatility 0.2, a grid of four points (so the
  smoothing is skipped), a spline that is the constant 0.2 through such quotes, and a step
  function for the normal distribution function.
\<close>

definition step_cdf :: "real \<Rightarrow> real" where
  "step_cdf d = (if 0 \<le> d then 1 else 0)"

definition example_library :: library where
  "example_library =
     \<lparr>minimize = (\<lambda>method obj guess. Inr \<lparr>opt_x = guess, opt_success = True\<rparr>),
      CubicSpline = (\<lambda>xs ys. if length xs < 2
                               then Inl (ValueError ''`x` must contain at least 2 elements.'')
                               else Inr (\<lambda>k. 1 / 5)),
      savgol_filter = (\<lambda>a w k. Inr a),
      norm_cdf = step_cdf\<rparr>"

definition example_constants :: constants where
  "example_constants =
     \<lparr>MIN_STRIKE_PCT = 0.80, MAX_STRIKE_PCT = 1.20, MIN_STRIKES_FOR_PDF = 3,
      PDF_GRID_POINTS = 4\<rparr>"

definition example_quotes :: "quote list" where
  "example_quotes =
     [\<lparr>strike = 9 / 10, price = 1 / 10, impliedVolatility = Fin (1 / 5)\<rparr>,
      \<lparr>strike = 1, price = 1 / 20, impliedVolatility = Fin (1 / 5)\<rparr>,
      \<lparr>strike = 11 / 10, price = 1 / 100, impliedVolatility = Fin (1 / 5)\<rparr>]"

text \<open>
  A second configuration, with a grid of six points, so that the smoothing is applied, and a
  library whose filter undershoots: it returns its input lowered by 1, which is negative
  where the density was small.
\<close>

definition undershooting_library :: library where
  "undershooting_library =
     example_library\<lparr>savgol_filter := (\<lambda>a w k. Inr (map (\<lambda>v. v - 1) a))\<rparr>"

definition six_point_constants :: constants where
  "six_point_constants =
     \<lparr>MIN_STRIKE_PCT = 0.80, MAX_STRIKE_PCT = 1.20, MIN_STRIKES_FOR_PDF = 3,
      PDF_GRID_POINTS = 6\<rparr>"

text \<open>
  More inputs for the examples: a chain of which five rows pass the filter for a spot price
  of 100; the arrays that \<open>calculate_from_options\<close> hands to the calibration; a library
  whose optimizer never reports success; calibration inputs with three valid points and
  with two; quotes of which two have a usable implied volatility; and the object that the
  worked example leaves behind.
\<close>

definition five_quotes :: "quote list" where
  "five_quotes =
     [\<lparr>strike = 90, price = 12, impliedVolatility = Fin (1 / 5)\<rparr>,
      \<lparr>strike = 95, price = 8, impliedVolatility = Fin (1 / 5)\<rparr>,
      \<lparr>strike = 100, price = 4, impliedVolatility = Fin (1 / 5)\<rparr>,
      \<lparr>strike = 105, price = 2, impliedVolatility = Fin (1 / 5)\<rparr>,
      \<lparr>strike = 110, price = 1, impliedVolatility = Fin (1 / 5)\<rparr>,
      \<lparr>strike = 150, price = 1, impliedVolatility = Fin (1 / 5)\<rparr>,
      \<lparr>strike = 100, price = 0, impliedVolatility = Fin (1 / 5)\<rparr>]"

definition market_points :: "constants \<Rightarrow> real \<Rightarrow> quote list \<Rightarrow> (real \<times> npfloat) list" where
  "market_points cfg spot_price options_df =
     (let df = sort_key strike (filter_quotes cfg spot_price options_df)
      in zip (map strike df) (map impliedVolatility df))"

definition stalled_library :: library where
  "stalled_library =
     example_library\<lparr>minimize := (\<lambda>method obj guess. Inr \<lparr>opt_x = guess, opt_success = False\<rparr>)\<rparr>"

definition three_points :: "(real \<times> npfloat) list" where
  "three_points = [(90, Fin (1 / 5)), (100, Fin (1 / 5)), (110, Fin (1 / 5))]"

definition two_valid_points :: "(real \<times> npfloat) list" where
  "two_valid_points = [(90, Fin (1 / 5)), (100, NaN), (110, Fin (1 / 5)), (120, Fin 0), (- 5, Fin (1 / 5)), (130, PosInf)]"

definition two_valid_quotes :: "quote list" where
  "two_valid_quotes =
     [\<lparr>strike = 9 / 10, price = 1 / 10, impliedVolatility = Fin (1 / 5)\<rparr>,
      \<lparr>strike = 1, price = 1 / 20, impliedVolatility = NaN\<rparr>,
      \<lparr>strike = 11 / 10, price = 1 / 100, impliedVolatility = Fin (1 / 5)\<rparr>]"


section \<open>Facts about the array routines\<close>

lemma trapezoid_scale:
  "trapezoid (map (\<lambda>p. p / c) y) xs = trapezoid y xs / c"
proof (induction y xs rule: trapezoid.induct)
  case (1 y0 y1 ys x0 x1 xs)
  have "(x1 - x0) * (y0 / c + y1 / c) / 2 = (x1 - x0) * (y0 + y1) / 2 / c"
    by (cases "c = 0") (simp_all add: field_simps)
  with 1 show ?case by (simp add: add_divide_distrib)
qed simp_all

lemma normalize_pdf_integral:
  assumes "normalize_pdf strikes pdf = Inr p"
  shows "trapezoid p strikes = 1"
proof -
  from assms have pos: "trapezoid pdf strikes > 0"
    and p: "p = map (\<lambda>v. v / trapezoid pdf strikes) pdf"
    by (auto simp: normalize_pdf_def Let_def split: if_splits)
  show ?thesis unfolding p using pos by (simp add: trapezoid_scale)
qed

lemma normalize_pdf_nonneg:
  assumes "normalize_pdf strikes pdf = Inr p" and "list_all (\<lambda>v. 0 \<le> v) pdf"
  shows "list_all (\<lambda>v. 0 \<le> v) p"
proof -
  from assms(1) have pos: "trapezoid pdf strikes > 0"
    and p: "p = map (\<lambda>v. v / trapezoid pdf strikes) pdf"
    by (auto simp: normalize_pdf_def Let_def split: if_splits)
  show ?thesis unfolding p using pos assms(2)
    by (auto simp: list_all_iff)
qed

lemma np_maximum0_nonneg: "list_all (\<lambda>v. 0 \<le> v) (np_maximum0 a)"
  by (simp add: np_maximum0_def list_all_iff)

lemma breeden_litzenberger_nonneg:
  assumes "breeden_litzenberger lib strikes prices r T = Inr pdf"
  shows "list_all (\<lambda>v. 0 \<le> v) pdf"
  using assms np_maximum0_nonneg
  by (auto simp: breeden_litzenberger_def Let_def split: sum.splits if_splits)

lemma length_linspace: "length (linspace a b n) = n"
  by (simp add: linspace_def)

lemma sorted_linspace: "a \<le> b \<Longrightarrow> sorted (linspace a b n)"
proof -
  assume ab: "a \<le> b"
  have "real i * ((b - a) / real (n - 1)) \<le> real j * ((b - a) / real (n - 1))"
    if "i \<le> j" for i j :: nat
    using that ab by (intro mult_right_mono divide_nonneg_nonneg) simp_all
  then show ?thesis
    unfolding linspace_def by (simp add: sorted_iff_nth_mono del: of_nat_diff)
qed

lemma last_cumtrapz_from:
  "last (acc # cumtrapz_from acc y xs) = acc + trapezoid y xs"
  by (induction acc y xs rule: cumtrapz_from.induct) (simp_all add: Let_def)

lemma sorted_cumtrapz_from:
  "list_all (\<lambda>v. 0 \<le> v) y \<Longrightarrow> sorted xs \<Longrightarrow> sorted (acc # cumtrapz_from acc y xs)"
proof (induction acc y xs rule: cumtrapz_from.induct)
  case (1 acc y0 y1 ys x0 x1 xs)
  let ?acc' = "acc + (x1 - x0) * (y0 + y1) / 2"
  from 1(2,3) have step: "0 \<le> (x1 - x0) * (y0 + y1) / 2" by simp
  from 1(2,3) have "sorted (?acc' # cumtrapz_from ?acc' (y1 # ys) (x1 # xs))"
    by (intro 1(1)) simp_all
  moreover have "acc \<le> ?acc'" using step by simp
  ultimately show ?case
    by (auto simp: Let_def)
qed simp_all

lemma cumulative_trapezoid_props:
  assumes "y \<noteq> []" "xs \<noteq> []"
  shows "hd (cumulative_trapezoid y xs) = 0"
    and "last (cumulative_trapezoid y xs) = trapezoid y xs"
    and "list_all (\<lambda>v. 0 \<le> v) y \<Longrightarrow> sorted xs \<Longrightarrow> sorted (cumulative_trapezoid y xs)"
  using assms last_cumtrapz_from[of 0 y xs] sorted_cumtrapz_from[of y xs 0]
  by (simp_all add: cumulative_trapezoid_def)

section \<open>The worked example, computed\<close>

lemma bs_d1_example_nonneg: "0 < K \<Longrightarrow> K \<le> 1 \<Longrightarrow> 0 \<le> bs_d1 K 1 0 1 (1 / 5)"
proof -
  assume "0 < K" "K \<le> 1"
  then have "ln K \<le> 0" by simp
  then show ?thesis
    by (simp add: bs_d1_def ln_div power2_eq_square)
qed

lemma bs_d2_example_neg: "1 \<le> K \<Longrightarrow> bs_d2 K 1 0 1 (1 / 5) < 0"
proof -
  assume "1 \<le> K"
  then have "ln K \<ge> 0" by simp
  then show ?thesis
    by (simp add: bs_d2_def bs_d1_def ln_div power2_eq_square field_simps)
qed

lemma bs_d1_example_neg: "26 / 25 \<le> K \<Longrightarrow> bs_d1 K 1 0 1 (1 / 5) < 0"
proof -
  assume K: "26 / 25 \<le> K"
  have "ln (1 / K) \<le> 1 / K - 1" using K by (intro ln_le_minus_one) simp
  also have "\<dots> \<le> 25 / 26 - 1" using K by (simp add: field_simps)
  finally have "ln (1 / K) \<le> - 1 / 26" by simp
  then show ?thesis
    by (simp add: bs_d1_def power2_eq_square field_simps)
qed

lemma bs_d2_example_nonneg: "0 < K \<Longrightarrow> K \<le> 24 / 25 \<Longrightarrow> 0 \<le> bs_d2 K 1 0 1 (1 / 5)"
proof -
  assume K: "0 < K" "K \<le> 24 / 25"
  have "ln K \<le> K - 1" using K by (intro ln_le_minus_one) simp
  also have "\<dots> \<le> - 1 / 25" using K by simp
  finally have "ln (1 / K) \<ge> 1 / 25" using K by (simp add: ln_div)
  then show ?thesis
    by (simp add: bs_d2_def bs_d1_def power2_eq_square field_simps)
qed

lemma example_grid:
  "linspace (MIN_STRIKE_PCT example_constants) (MAX_STRIKE_PCT example_constants)
     (PDF_GRID_POINTS example_constants) = [4 / 5, 14 / 15, 16 / 15, 6 / 5]"
  by (simp add: linspace_def example_constants_def upt_conv_Cons)

lemma example_prices:
  "black_scholes_call example_library [4 / 5, 14 / 15, 16 / 15, 6 / 5] 1 0 1
     [1 / 5, 1 / 5, 1 / 5, 1 / 5] = [1 / 5, 1 / 15, 0, 0]"
  using bs_d1_example_nonneg[of "4/5"] bs_d1_example_nonneg[of "14/15"]
    bs_d2_example_nonneg[of "4/5"] bs_d2_example_nonneg[of "14/15"]
    bs_d1_example_neg[of "16/15"] bs_d1_example_neg[of "6/5"]
    bs_d2_example_neg[of "16/15"] bs_d2_example_neg[of "6/5"]
  by (simp add: black_scholes_call_def example_library_def step_cdf_def)

lemma example_density:
  "breeden_litzenberger example_library [4 / 5, 14 / 15, 16 / 15, 6 / 5] [1 / 5, 1 / 15, 0, 0] 0 1
     = Inr [15 / 8, 45 / 16, 45 / 16, 15 / 8]"
  by (simp add: breeden_litzenberger_def np_gradient_def central_diff_def np_maximum0_def
      window_length_def Let_def upt_conv_Cons)

lemma example_normalized:
  "normalize_pdf [4 / 5, 14 / 15, 16 / 15, 6 / 5] [15 / 8, 45 / 16, 45 / 16, 15 / 8]
     = Inr [15 / 8, 45 / 16, 45 / 16, 15 / 8]"
  by (simp add: normalize_pdf_def Let_def)

lemma example_cdf:
  "calculate_cdf [4 / 5, 14 / 15, 16 / 15, 6 / 5] [15 / 8, 45 / 16, 45 / 16, 15 / 8]
     = [0, 5 / 16, 11 / 16, 1]"
  by (simp add: calculate_cdf_def cumulative_trapezoid_def Let_def)

lemma example_filter:
  "filter_quotes example_constants 1 example_quotes = example_quotes"
  by (simp add: filter_quotes_def example_constants_def example_quotes_def)

lemma example_calibration:
  "\<exists>stats. calibrate_volatility_surface example_library
     (zip (map strike (sort_key strike example_quotes))
          (map impliedVolatility (sort_key strike example_quotes))) fwd 1 ''spline''
   = Inr (CubicSplineInterpolator (\<lambda>k. 1 / 5), stats)"
  by (simp add: calibrate_volatility_surface_def spline_calibrate_def apply_mask_def
      valid_mask_def example_library_def example_quotes_def Let_def)

lemma example_run:
  "calculate_from_options example_library example_constants init_extractor example_quotes
     1 0 1 ''call'' ''spline''
   = (Inr ([4 / 5, 14 / 15, 16 / 15, 6 / 5], [15 / 8, 45 / 16, 45 / 16, 15 / 8]),
      \<lparr>stored_pdf = Some [15 / 8, 45 / 16, 45 / 16, 15 / 8],
       stored_strikes = Some [4 / 5, 14 / 15, 16 / 15, 6 / 5],
       stored_cdf = Some [0, 5 / 16, 11 / 16, 1],
       stored_spot = Some 1,
       stored_params = Some (0, 1, ''call'')\<rparr>)"
proof -
  obtain stats where cal: "calibrate_volatility_surface example_library
     (zip (map strike (sort_key strike example_quotes))
          (map impliedVolatility (sort_key strike example_quotes))) 1 1 ''spline''
   = Inr (CubicSplineInterpolator (\<lambda>k. 1 / 5), stats)"
    using example_calibration by blast
  have len: "\<not> length example_quotes < MIN_STRIKES_FOR_PDF example_constants"
    by (simp add: example_quotes_def example_constants_def)
  show ?thesis
    unfolding calculate_from_options_def example_filter Let_def
    using len
    by (simp add: cal example_grid example_prices example_density example_normalized
          example_cdf init_extractor_def)
qed

text \<open>The second example: the filter is applied and what it returns is clipped.\<close>

lemma six_point_grid:
  "linspace (MIN_STRIKE_PCT six_point_constants) (MAX_STRIKE_PCT six_point_constants)
     (PDF_GRID_POINTS six_point_constants) = [4 / 5, 22 / 25, 24 / 25, 26 / 25, 28 / 25, 6 / 5]"
  by (simp add: linspace_def six_point_constants_def upt_conv_Cons)

lemma six_point_prices:
  "black_scholes_call undershooting_library [4 / 5, 22 / 25, 24 / 25, 26 / 25, 28 / 25, 6 / 5] 1 0 1
     [1 / 5, 1 / 5, 1 / 5, 1 / 5, 1 / 5, 1 / 5] = [1 / 5, 3 / 25, 1 / 25, 0, 0, 0]"
  using bs_d1_example_nonneg[of "4/5"] bs_d1_example_nonneg[of "22/25"]
    bs_d1_example_nonneg[of "24/25"]
    bs_d2_example_nonneg[of "4/5"] bs_d2_example_nonneg[of "22/25"]
    bs_d2_example_nonneg[of "24/25"]
    bs_d1_example_neg[of "26/25"] bs_d1_example_neg[of "28/25"] bs_d1_example_neg[of "6/5"]
    bs_d2_example_neg[of "26/25"] bs_d2_example_neg[of "28/25"] bs_d2_example_neg[of "6/5"]
  by (simp add: black_scholes_call_def undershooting_library_def example_library_def step_cdf_def)

lemma six_point_density:
  "breeden_litzenberger undershooting_library [4 / 5, 22 / 25, 24 / 25, 26 / 25, 28 / 25, 6 / 5]
     [1 / 5, 3 / 25, 1 / 25, 0, 0, 0] 0 1
     = Inr [0, 9 / 16, 59 / 16, 59 / 16, 9 / 16, 0]"
  by (simp add: breeden_litzenberger_def np_gradient_def central_diff_def np_maximum0_def
      window_length_def undershooting_library_def example_library_def Let_def upt_conv_Cons)

lemma six_point_normalized:
  "normalize_pdf [4 / 5, 22 / 25, 24 / 25, 26 / 25, 28 / 25, 6 / 5]
     [0, 9 / 16, 59 / 16, 59 / 16, 9 / 16, 0]
     = Inr [0, 225 / 272, 1475 / 272, 1475 / 272, 225 / 272, 0]"
  by (simp add: normalize_pdf_def Let_def)

lemma six_point_filter:
  "filter_quotes six_point_constants 1 example_quotes = example_quotes"
  by (simp add: filter_quotes_def six_point_constants_def example_quotes_def)

lemma six_point_calibration:
  "\<exists>stats. calibrate_volatility_surface undershooting_library
     (zip (map strike (sort_key strike example_quotes))
          (map impliedVolatility (sort_key strike example_quotes))) fwd 1 ''spline''
   = Inr (CubicSplineInterpolator (\<lambda>k. 1 / 5), stats)"
  by (simp add: calibrate_volatility_surface_def spline_calibrate_def apply_mask_def
      valid_mask_def undershooting_library_def example_library_def example_quotes_def Let_def)

lemma six_point_run:
  "fst (calculate_from_options undershooting_library six_point_constants init_extractor
          example_quotes 1 0 1 ''call'' ''spline'')
   = Inr ([4 / 5, 22 / 25, 24 / 25, 26 / 25, 28 / 25, 6 / 5],
          [0, 225 / 272, 1475 / 272, 1475 / 272, 225 / 272, 0])"
proof -
  obtain stats where cal: "calibrate_volatility_surface undershooting_library
     (zip (map strike (sort_key strike example_quotes))
          (map impliedVolatility (sort_key strike example_quotes))) 1 1 ''spline''
   = Inr (CubicSplineInterpolator (\<lambda>k. 1 / 5), stats)"
    using six_point_calibration by blast
  have len: "\<not> length example_quotes < MIN_STRIKES_FOR_PDF six_point_constants"
    by (simp add: example_quotes_def six_point_constants_def)
  show ?thesis
    unfolding calculate_from_options_def six_point_filter Let_def
    using len
    by (simp add: cal six_point_grid six_point_prices six_point_density six_point_normalized)
qed

lemma six_point_smoothed_negative:
  "savgol_filter undershooting_library [0, 25 / 16, 75 / 16, 75 / 16, 25 / 16, 0] 5 3
     = Inr [- 1, 9 / 16, 59 / 16, 59 / 16, 9 / 16, - 1]"
  by (simp add: undershooting_library_def)

section \<open>Properties of the extracted density\<close>

lemma calculate_from_options_success:
  assumes "calculate_from_options lib cfg self df spot r T ty m = (Inr (grid, pdf), self')"
  obtains prices pdf0 where
    "grid = linspace (spot * MIN_STRIKE_PCT cfg) (spot * MAX_STRIKE_PCT cfg) (PDF_GRID_POINTS cfg)"
    "\<not> length (filter_quotes cfg spot df) < MIN_STRIKES_FOR_PDF cfg"
    "breeden_litzenberger lib grid prices r T = Inr pdf0"
    "normalize_pdf grid pdf0 = Inr pdf"
    "stored_strikes self' = Some grid"
    "stored_pdf self' = Some pdf"
    "stored_cdf self' = Some (calculate_cdf grid pdf)"
  using assms unfolding calculate_from_options_def Let_def
  by (auto split: if_splits sum.splits prod.splits)

text \<open>
  Claim C1. Whenever \<open>calculate_from_options\<close> returns, the trapezoidal integral of the
  returned density over the returned strike grid is within 1\% of 1. (Over the reals it is
  exactly 1, the density having been divided by its own positive integral.)
\<close>

theorem mass_conservation:
  assumes "calculate_from_options lib cfg self df spot r T ty m = (Inr (grid, pdf), self')"
  shows "\<bar>trapezoid pdf grid - 1\<bar> \<le> 1 / 100"
proof -
  from assms obtain pdf0 where "normalize_pdf grid pdf0 = Inr pdf"
    by (rule calculate_from_options_success)
  then have "trapezoid pdf grid = 1" by (rule normalize_pdf_integral)
  then show ?thesis by simp
qed

theorem mass_conservation_witness:
  "calculate_from_options example_library example_constants init_extractor example_quotes
     1 0 1 ''call'' ''spline''
   = (Inr ([4 / 5, 14 / 15, 16 / 15, 6 / 5], [15 / 8, 45 / 16, 45 / 16, 15 / 8]),
      \<lparr>stored_pdf = Some [15 / 8, 45 / 16, 45 / 16, 15 / 8],
       stored_strikes = Some [4 / 5, 14 / 15, 16 / 15, 6 / 5],
       stored_cdf = Some [0, 5 / 16, 11 / 16, 1],
       stored_spot = Some 1,
       stored_params = Some (0, 1, ''call'')\<rparr>)
   \<and> \<bar>trapezoid [15 / 8, 45 / 16, 45 / 16, 15 / 8] [4 / 5, 14 / 15, 16 / 15, 6 / 5] - 1\<bar>
       \<le> 1 / 100"
  using mass_conservation [OF example_run] example_run by simp

text \<open>
  Claim C2. Whenever \<open>calculate_from_options\<close> returns, no entry of the returned density
  is negative, whatever the implied volatilities, the fitted surface and the smoothing
  filter were: the array is clipped at 0 after the filter, and then divided by a positive
  number.
\<close>

theorem density_nonneg:
  assumes "calculate_from_options lib cfg self df spot r T ty m = (Inr (grid, pdf), self')"
  shows "list_all (\<lambda>v. 0 \<le> v) pdf"
proof -
  from assms obtain prices pdf0 where
    "breeden_litzenberger lib grid prices r T = Inr pdf0" "normalize_pdf grid pdf0 = Inr pdf"
    by (rule calculate_from_options_success)
  then show ?thesis
    using breeden_litzenberger_nonneg normalize_pdf_nonneg by blast
qed

theorem density_nonneg_witness:
  "fst (calculate_from_options undershooting_library six_point_constants init_extractor
          example_quotes 1 0 1 ''call'' ''spline'')
   = Inr ([4 / 5, 22 / 25, 24 / 25, 26 / 25, 28 / 25, 6 / 5],
          [0, 225 / 272, 1475 / 272, 1475 / 272, 225 / 272, 0])
   \<and> savgol_filter undershooting_library [0, 25 / 16, 75 / 16, 75 / 16, 25 / 16, 0] 5 3
       = Inr [- 1, 9 / 16, 59 / 16, 59 / 16, 9 / 16, - 1]
   \<and> list_all (\<lambda>v. 0 \<le> v) [0, 225 / 272, 1475 / 272, 1475 / 272, 225 / 272, 0 :: real]"
proof -
  have run: "calculate_from_options undershooting_library six_point_constants init_extractor
               example_quotes 1 0 1 ''call'' ''spline''
             = (Inr ([4 / 5, 22 / 25, 24 / 25, 26 / 25, 28 / 25, 6 / 5],
                     [0, 225 / 272, 1475 / 272, 1475 / 272, 225 / 272, 0]),
                snd (calculate_from_options undershooting_library six_point_constants
                       init_extractor example_quotes 1 0 1 ''call'' ''spline''))"
    using six_point_run by (simp add: prod_eq_iff)
  show ?thesis
    using density_nonneg [OF run] six_point_run six_point_smoothed_negative by simp
qed

lemma trapezoid_nonzero_nonempty: "trapezoid y xs \<noteq> 0 \<Longrightarrow> y \<noteq> [] \<and> xs \<noteq> []"
  by (cases y; cases xs) auto

lemma filter_quotes_band:
  assumes "0 < length (filter_quotes cfg spot df)"
  shows "spot * MIN_STRIKE_PCT cfg \<le> spot * MAX_STRIKE_PCT cfg"
proof -
  from assms obtain q where "q \<in> set (filter_quotes cfg spot df)"
    by (cases "filter_quotes cfg spot df") auto
  then show ?thesis by (auto simp: filter_quotes_def)
qed

text \<open>
  \<open>_calculate_cdf\<close> on any non-negative density with a positive integral over an
  ascending grid: the last entry of the cumulative integral is that integral, the division
  by it is done, and the result is non-decreasing, starts at 0 and ends at exactly 1.
\<close>

lemma calculate_cdf_branches:
  "calculate_cdf ks p =
     (if last (cumulative_trapezoid p ks) > 0
      then map (\<lambda>c. c / last (cumulative_trapezoid p ks)) (cumulative_trapezoid p ks)
      else cumulative_trapezoid p ks)"
  by (simp add: calculate_cdf_def Let_def)

lemma calculate_cdf_normalized:
  assumes ascending: "sorted ks"
    and nonneg: "list_all (\<lambda>v. 0 \<le> v) p"
    and mass: "0 < trapezoid p ks"
  shows "calculate_cdf ks p
           = map (\<lambda>c. c / trapezoid p ks) (cumulative_trapezoid p ks)"
    and "sorted (calculate_cdf ks p)"
    and "hd (calculate_cdf ks p) = 0"
    and "last (calculate_cdf ks p) = 1"
proof -
  let ?c = "cumulative_trapezoid p ks"
  from mass have ne: "p \<noteq> []" "ks \<noteq> []"
    using trapezoid_nonzero_nonempty[of p ks] by simp_all
  have c: "hd ?c = 0" "last ?c = trapezoid p ks" "sorted ?c" "?c \<noteq> []"
    using cumulative_trapezoid_props[OF ne] nonneg ascending ne
    by (simp_all add: cumulative_trapezoid_def)
  show eq: "calculate_cdf ks p = map (\<lambda>c. c / trapezoid p ks) ?c"
    using c(2) mass by (simp add: calculate_cdf_branches)
  have "c / trapezoid p ks \<le> d / trapezoid p ks" if "c \<le> d" for c d
    using that mass by (simp add: divide_right_mono)
  then show "sorted (calculate_cdf ks p)"
    unfolding eq using c(3) by (simp add: sorted_iff_nth_mono)
  show "hd (calculate_cdf ks p) = 0"
    unfolding eq using c(1,4) by (simp add: hd_map)
  show "last (calculate_cdf ks p) = 1"
    unfolding eq using c(2,4) mass by (simp add: last_map)
qed

text \<open>
  Claim C3. After \<open>calculate_from_options\<close> has returned (at least one strike being
  required), the stored CDF is the cumulative trapezoidal integral of the returned density
  divided by its last entry, which is positive; it is non-decreasing, starts at 0 and ends
  at exactly 1. \<open>_calculate_cdf\<close> divides by the last entry exactly when that entry is
  positive and leaves the CDF as it is otherwise; on every non-negative density with a
  positive integral over an ascending grid, whatever that integral is, the division makes
  the last entry exactly 1.
\<close>

theorem cdf_monotone_normalized:
  assumes run: "calculate_from_options lib cfg self df spot r T ty m = (Inr (grid, pdf), self')"
    and required: "0 < MIN_STRIKES_FOR_PDF cfg"
  shows "stored_cdf self' = Some (calculate_cdf grid pdf)
         \<and> 0 < last (cumulative_trapezoid pdf grid)
         \<and> calculate_cdf grid pdf
             = map (\<lambda>c. c / last (cumulative_trapezoid pdf grid)) (cumulative_trapezoid pdf grid)
         \<and> sorted (calculate_cdf grid pdf)
         \<and> hd (calculate_cdf grid pdf) = 0
         \<and> last (calculate_cdf grid pdf) = 1
         \<and> calculate_cdf ks p
             = (if last (cumulative_trapezoid p ks) > 0
                then map (\<lambda>c. c / last (cumulative_trapezoid p ks)) (cumulative_trapezoid p ks)
                else cumulative_trapezoid p ks)
         \<and> (sorted ks \<and> list_all (\<lambda>v. 0 \<le> v) p \<and> 0 < trapezoid p ks \<longrightarrow>
              last (cumulative_trapezoid p ks) = trapezoid p ks
              \<and> sorted (calculate_cdf ks p)
              \<and> hd (calculate_cdf ks p) = 0
              \<and> last (calculate_cdf ks p) = 1)"
proof -
  from run obtain prices pdf0 where
    grid: "grid = linspace (spot * MIN_STRIKE_PCT cfg) (spot * MAX_STRIKE_PCT cfg)
                    (PDF_GRID_POINTS cfg)"
    and enough: "\<not> length (filter_quotes cfg spot df) < MIN_STRIKES_FOR_PDF cfg"
    and bl: "breeden_litzenberger lib grid prices r T = Inr pdf0"
    and norm: "normalize_pdf grid pdf0 = Inr pdf"
    and stored: "stored_cdf self' = Some (calculate_cdf grid pdf)"
    by (rule calculate_from_options_success)
  from enough required have "spot * MIN_STRIKE_PCT cfg \<le> spot * MAX_STRIKE_PCT cfg"
    using filter_quotes_band[of cfg spot df] by (cases "filter_quotes cfg spot df") auto
  then have sorted_grid: "sorted grid" unfolding grid by (rule sorted_linspace)
  have nonneg: "list_all (\<lambda>v. 0 \<le> v) pdf"
    using bl norm breeden_litzenberger_nonneg normalize_pdf_nonneg by blast
  have one: "trapezoid pdf grid = 1" using norm by (rule normalize_pdf_integral)
  then have mass: "0 < trapezoid pdf grid" by simp
  from one have ne: "pdf \<noteq> []" "grid \<noteq> []"
    using trapezoid_nonzero_nonempty[of pdf grid] by simp_all
  have tail: "last (cumulative_trapezoid pdf grid) = trapezoid pdf grid"
    using cumulative_trapezoid_props(2)[OF ne] .
  have stored_props:
    "calculate_cdf grid pdf
       = map (\<lambda>c. c / last (cumulative_trapezoid pdf grid)) (cumulative_trapezoid pdf grid)"
    "sorted (calculate_cdf grid pdf)" "hd (calculate_cdf grid pdf) = 0"
    "last (calculate_cdf grid pdf) = 1"
    using calculate_cdf_normalized[OF sorted_grid nonneg mass] tail by simp_all
  have general: "last (cumulative_trapezoid p ks) = trapezoid p ks
              \<and> sorted (calculate_cdf ks p) \<and> hd (calculate_cdf ks p) = 0
              \<and> last (calculate_cdf ks p) = 1"
    if "sorted ks" "list_all (\<lambda>v. 0 \<le> v) p" "0 < trapezoid p ks"
  proof -
    from that(3) have "p \<noteq> []" "ks \<noteq> []"
      using trapezoid_nonzero_nonempty[of p ks] by simp_all
    then have "last (cumulative_trapezoid p ks) = trapezoid p ks"
      by (rule cumulative_trapezoid_props(2))
    then show ?thesis using calculate_cdf_normalized[OF that] by simp
  qed
  have pos: "0 < last (cumulative_trapezoid pdf grid)" using tail mass by simp
  show ?thesis
  proof (intro conjI)
    show "stored_cdf self' = Some (calculate_cdf grid pdf)" by (rule stored)
    show "0 < last (cumulative_trapezoid pdf grid)" by (rule pos)
    show "calculate_cdf grid pdf
            = map (\<lambda>c. c / last (cumulative_trapezoid pdf grid)) (cumulative_trapezoid pdf grid)"
      by (rule stored_props(1))
    show "sorted (calculate_cdf grid pdf)" by (rule stored_props(2))
    show "hd (calculate_cdf grid pdf) = 0" by (rule stored_props(3))
    show "last (calculate_cdf grid pdf) = 1" by (rule stored_props(4))
    show "calculate_cdf ks p
            = (if last (cumulative_trapezoid p ks) > 0
               then map (\<lambda>c. c / last (cumulative_trapezoid p ks)) (cumulative_trapezoid p ks)
               else cumulative_trapezoid p ks)"
      by (rule calculate_cdf_branches)
    show "sorted ks \<and> list_all (\<lambda>v. 0 \<le> v) p \<and> 0 < trapezoid p ks \<longrightarrow>
              last (cumulative_trapezoid p ks) = trapezoid p ks
              \<and> sorted (calculate_cdf ks p)
              \<and> hd (calculate_cdf ks p) = 0
              \<and> last (calculate_cdf ks p) = 1"
      using general by blast
  qed
qed

theorem cdf_monotone_normalized_witness:
  "calculate_from_options example_library example_constants init_extractor example_quotes
     1 0 1 ''call'' ''spline''
   = (Inr ([4 / 5, 14 / 15, 16 / 15, 6 / 5], [15 / 8, 45 / 16, 45 / 16, 15 / 8]),
      \<lparr>stored_pdf = Some [15 / 8, 45 / 16, 45 / 16, 15 / 8],
       stored_strikes = Some [4 / 5, 14 / 15, 16 / 15, 6 / 5],
       stored_cdf = Some [0, 5 / 16, 11 / 16, 1],
       stored_spot = Some 1,
       stored_params = Some (0, 1, ''call'')\<rparr>)
   \<and> 0 < MIN_STRIKES_FOR_PDF example_constants
   \<and> sorted (calculate_cdf [4 / 5, 14 / 15, 16 / 15, 6 / 5] [15 / 8, 45 / 16, 45 / 16, 15 / 8])
   \<and> hd (calculate_cdf [4 / 5, 14 / 15, 16 / 15, 6 / 5] [15 / 8, 45 / 16, 45 / 16, 15 / 8]) = 0
   \<and> last (calculate_cdf [4 / 5, 14 / 15, 16 / 15, 6 / 5] [15 / 8, 45 / 16, 45 / 16, 15 / 8]) = 1
   \<and> sorted [0, 1 :: real] \<and> list_all (\<lambda>v. 0 \<le> v) [2, 2 :: real]
   \<and> 0 < trapezoid [2, 2] [0, 1]
   \<and> cumulative_trapezoid [2, 2] [0, 1] = [0, 2]
   \<and> calculate_cdf [0, 1] [2, 2] = [0, 1]
   \<and> last (calculate_cdf [0, 1] [2, 2]) = 1"
proof -
  have required: "0 < MIN_STRIKES_FOR_PDF example_constants"
    by (simp add: example_constants_def)
  have raw: "cumulative_trapezoid [2, 2] [0, 1 :: real] = [0, 2]"
    by (simp add: cumulative_trapezoid_def)
  have divided: "calculate_cdf [0, 1] [2, 2 :: real] = [0, 1]"
    by (simp add: calculate_cdf_def raw)
  have density: "sorted [0, 1 :: real] \<and> list_all (\<lambda>v. 0 \<le> v) [2, 2 :: real]
                   \<and> 0 < trapezoid [2, 2] [0, 1]"
    by simp
  note stated = cdf_monotone_normalized [OF example_run required, of "[0, 1]" "[2, 2]"]
  from stated have stored:
    "sorted (calculate_cdf [4 / 5, 14 / 15, 16 / 15, 6 / 5] [15 / 8, 45 / 16, 45 / 16, 15 / 8])
     \<and> hd (calculate_cdf [4 / 5, 14 / 15, 16 / 15, 6 / 5] [15 / 8, 45 / 16, 45 / 16, 15 / 8]) = 0
     \<and> last (calculate_cdf [4 / 5, 14 / 15, 16 / 15, 6 / 5] [15 / 8, 45 / 16, 45 / 16, 15 / 8]) = 1"
    by blast
  from stated density have ends: "last (calculate_cdf [0, 1] [2, 2]) = 1"
    by blast
  from stored ends density example_run required raw divided show ?thesis
    by (intro conjI) blast+
qed

section \<open>Insufficient data\<close>

text \<open>
  Claim C5. The rows that \<open>calculate_from_options\<close> keeps are those with a strike in the
  band \<open>[spot * MIN_STRIKE_PCT, spot * MAX_STRIKE_PCT]\<close> (0.80 and 1.20 by default) and a
  positive price; when fewer than \<open>MIN_STRIKES_FOR_PDF\<close> (10 by default) are kept, the call
  raises an error whose message gives the number required and the number found, and
  nothing is returned.
\<close>

theorem insufficient_strikes:
  assumes "length (filter_quotes cfg spot df) < MIN_STRIKES_FOR_PDF cfg"
  shows "fst (calculate_from_options lib cfg self df spot r T ty m)
           = Inl (ValueError (''Need at least '' @ str_nat (MIN_STRIKES_FOR_PDF cfg)
                               @ '' strikes, got ''
                               @ str_nat (length (filter_quotes cfg spot df))))
         \<and> set (filter_quotes cfg spot df)
           = {q \<in> set df. spot * MIN_STRIKE_PCT cfg \<le> strike q
                           \<and> strike q \<le> spot * MAX_STRIKE_PCT cfg \<and> 0 < price q}
         \<and> MIN_STRIKE_PCT default_constants = 0.80
         \<and> MAX_STRIKE_PCT default_constants = 1.20
         \<and> MIN_STRIKES_FOR_PDF default_constants = 10"
  using assms
  by (auto simp: calculate_from_options_def Let_def need_strikes_message_def filter_quotes_def
      default_constants_def)

lemma five_quotes_filtered: "length (filter_quotes default_constants 100 five_quotes) = 5"
  by (simp add: filter_quotes_def default_constants_def five_quotes_def)

lemma str_nat_10: "str_nat 10 = ''10''"
  by (simp add: str_nat.simps digit_char_def)

lemma str_nat_5: "str_nat 5 = ''5''"
  by (simp add: str_nat.simps digit_char_def)

theorem insufficient_strikes_witness:
  "length (filter_quotes default_constants 100 five_quotes) < MIN_STRIKES_FOR_PDF default_constants
   \<and> fst (calculate_from_options example_library default_constants init_extractor five_quotes
            100 (1 / 20) (1 / 12) ''call'' ''sabr'')
       = Inl (ValueError ''Need at least 10 strikes, got 5'')"
proof -
  have few: "length (filter_quotes default_constants 100 five_quotes)
               < MIN_STRIKES_FOR_PDF default_constants"
    by (simp add: five_quotes_filtered) (simp add: default_constants_def)
  have ten: "MIN_STRIKES_FOR_PDF default_constants = 10"
    by (simp add: default_constants_def)
  show ?thesis
    using insufficient_strikes [OF few, of example_library init_extractor "1 / 20" "1 / 12"
        "''call''" "''sabr''"] few
    by (simp add: five_quotes_filtered ten str_nat_10 str_nat_5)
qed

section \<open>Degenerate densities\<close>

lemma trapezoid_all_zero: "list_all (\<lambda>v. v = 0) y \<Longrightarrow> trapezoid y xs = 0"
  by (induction y xs rule: trapezoid.induct) simp_all

lemma clip_negative_curve:
  assumes "list_all (\<lambda>d. d < 0) d2C"
  shows "np_maximum0 (map (\<lambda>d. exp (r * T) * d) d2C) = replicate (length d2C) 0"
proof -
  have "max (exp (r * T) * d) 0 = 0" if "d < 0" for d :: real
    using that by (simp add: max_def mult_le_0_iff)
  with assms show ?thesis
    by (induction d2C) (simp_all add: np_maximum0_def)
qed

lemma np_maximum0_all_zero:
  "list_all (\<lambda>v. v = 0) s \<Longrightarrow> list_all (\<lambda>v. v = 0) (np_maximum0 s)"
  by (induction s) (simp_all add: np_maximum0_def)

text \<open>
  Claim C6. \<open>_normalize_pdf\<close> divides the density by its trapezoidal integral and raises
  when that integral is not positive. A price curve whose second derivative is negative
  everywhere is clipped to the zero array (the smoothing filter, being linear, maps the zero
  array to itself, or it raises and is skipped), whose integral is 0, so the error is raised.
\<close>

theorem degenerate_density:
  assumes dC: "np_gradient call_prices strikes = Inr dC"
    and d2C: "np_gradient dC strikes = Inr d2C"
    and negative: "list_all (\<lambda>d. d < 0) d2C"
    and filter_of_zero:
      "case savgol_filter lib (replicate (length d2C) 0)
              (window_length (replicate (length d2C) 0)) 3 of
         Inl e \<Rightarrow> True | Inr s \<Rightarrow> list_all (\<lambda>v. v = 0) s"
  shows "(\<exists>pdf. breeden_litzenberger lib strikes call_prices r T = Inr pdf
            \<and> list_all (\<lambda>v. v = 0) pdf
            \<and> normalize_pdf strikes pdf
                = Inl (ValueError ''PDF integral is zero or negative - invalid PDF''))
         \<and> normalize_pdf ks p
             = (if trapezoid p ks \<le> 0
                then Inl (ValueError ''PDF integral is zero or negative - invalid PDF'')
                else Inr (map (\<lambda>v. v / trapezoid p ks) p))"
proof -
  let ?zero = "replicate (length d2C) (0::real)"
  from dC have "length strikes = length call_prices" "\<not> length call_prices < 2"
    by (auto simp: np_gradient_def split: if_splits)
  then obtain dK where dK: "np_gradient strikes (map real [0..<length strikes]) = Inr dK"
    by (auto simp: np_gradient_def)
  have clipped: "np_maximum0 (map (\<lambda>d. exp (r * T) * d) d2C) = ?zero"
    using negative by (rule clip_negative_curve)
  have zero: "list_all (\<lambda>v. v = 0) ?zero" by (simp add: list_all_iff)
  obtain pdf where pdf: "breeden_litzenberger lib strikes call_prices r T = Inr pdf"
    and pdf_zero: "list_all (\<lambda>v. v = 0) pdf"
  proof (cases "window_length ?zero \<ge> 5")
    case False
    then have "breeden_litzenberger lib strikes call_prices r T = Inr ?zero"
      by (simp add: breeden_litzenberger_def dK dC d2C clipped Let_def)
    with zero that show ?thesis by blast
  next
    case True
    show ?thesis
    proof (cases "savgol_filter lib ?zero (window_length ?zero) 3")
      case (Inl e)
      with True have "breeden_litzenberger lib strikes call_prices r T = Inr ?zero"
        by (simp add: breeden_litzenberger_def dK dC d2C clipped Let_def)
      with zero that show ?thesis by blast
    next
      case (Inr s)
      with True have "breeden_litzenberger lib strikes call_prices r T = Inr (np_maximum0 s)"
        by (simp add: breeden_litzenberger_def dK dC d2C clipped Let_def)
      moreover have "list_all (\<lambda>v. v = 0) (np_maximum0 s)"
        using filter_of_zero Inr by (simp add: np_maximum0_all_zero)
      ultimately show ?thesis using that by blast
    qed
  qed
  have "normalize_pdf strikes pdf
          = Inl (ValueError ''PDF integral is zero or negative - invalid PDF'')"
    using trapezoid_all_zero[OF pdf_zero] by (simp add: normalize_pdf_def)
  with pdf pdf_zero show ?thesis
    by (auto simp: normalize_pdf_def Let_def)
qed

lemma concave_curve_first:
  "np_gradient [0, 2, 3, 7 / 2] [1, 2, 3, 4] = Inr [2, 3 / 2, 3 / 4, 1 / 2]"
  by (simp add: np_gradient_def central_diff_def)

lemma concave_curve_second:
  "np_gradient [2, 3 / 2, 3 / 4, 1 / 2] [1, 2, 3, 4] = Inr [- 1 / 2, - 5 / 8, - 1 / 2, - 1 / 4]"
  by (simp add: np_gradient_def central_diff_def)

theorem degenerate_density_witness:
  "np_gradient [0, 2, 3, 7 / 2] [1, 2, 3, 4] = Inr [2, 3 / 2, 3 / 4, 1 / 2]
   \<and> np_gradient [2, 3 / 2, 3 / 4, 1 / 2] [1, 2, 3, 4] = Inr [- 1 / 2, - 5 / 8, - 1 / 2, - 1 / 4]
   \<and> list_all (\<lambda>d. d < 0) [- 1 / 2, - 5 / 8, - 1 / 2, - 1 / 4 :: real]
   \<and> breeden_litzenberger example_library [1, 2, 3, 4] [0, 2, 3, 7 / 2] 0 1 = Inr [0, 0, 0, 0]
   \<and> normalize_pdf [1, 2, 3, 4] [0, 0, 0, 0]
       = Inl (ValueError ''PDF integral is zero or negative - invalid PDF'')"
proof -
  have negative: "list_all (\<lambda>d. d < 0) [- 1 / 2, - 5 / 8, - 1 / 2, - 1 / 4 :: real]"
    by simp
  have filter_of_zero:
    "case savgol_filter example_library
            (replicate (length [- 1 / 2, - 5 / 8, - 1 / 2, - 1 / 4 :: real]) 0)
            (window_length (replicate (length [- 1 / 2, - 5 / 8, - 1 / 2, - 1 / 4 :: real]) 0)) 3 of
       Inl e \<Rightarrow> True | Inr s \<Rightarrow> list_all (\<lambda>v. v = 0) s"
    by (simp add: example_library_def list_all_iff)
  have run: "breeden_litzenberger example_library [1, 2, 3, 4] [0, 2, 3, 7 / 2] 0 1
               = Inr [0, 0, 0, 0]"
    by (simp add: breeden_litzenberger_def concave_curve_first concave_curve_second
        np_gradient_def central_diff_def np_maximum0_def window_length_def Let_def upt_conv_Cons)
  show ?thesis
    using degenerate_density [OF concave_curve_first concave_curve_second negative
        filter_of_zero, of 0 1 "[1, 2, 3, 4]" "[0, 0, 0, 0]"]
      concave_curve_first concave_curve_second negative run
    by (simp add: normalize_pdf_def)
qed

section \<open>Probability queries\<close>

text \<open>
  What \<open>calculate_from_options\<close> stores: the strike grid and a CDF of the same length,
  with at least two entries, the smoothing filter keeping the length of its input (as
  scipy's does).
\<close>

lemma length_gradient_tail:
  "length f = length xs \<Longrightarrow> 2 \<le> length f \<Longrightarrow> length (gradient_tail f xs) = length f - 1"
  by (induction f xs rule: gradient_tail.induct) simp_all

lemma np_gradient_length:
  assumes "np_gradient f xs = Inr g"
  shows "length g = length f" and "2 \<le> length f" and "length xs = length f"
  using assms length_gradient_tail[of f xs]
  by (auto simp: np_gradient_def split: if_splits)

lemma length_cumtrapz_from:
  "length (cumtrapz_from acc y xs) = min (length y) (length xs) - 1"
  by (induction acc y xs rule: cumtrapz_from.induct) (simp_all add: Let_def)

lemma length_cumulative_trapezoid:
  "length (cumulative_trapezoid y xs) = min (length y) (length xs)"
  by (cases y; cases xs) (simp_all add: cumulative_trapezoid_def length_cumtrapz_from)

lemma length_calculate_cdf:
  "length (calculate_cdf strikes pdf) = min (length pdf) (length strikes)"
  by (simp add: calculate_cdf_def Let_def length_cumulative_trapezoid)

lemma breeden_litzenberger_length:
  assumes run: "breeden_litzenberger lib strikes prices r T = Inr pdf"
    and same_shape: "\<And>a w k s. savgol_filter lib a w k = Inr s \<Longrightarrow> length s = length a"
  shows "length pdf = length strikes" and "2 \<le> length strikes"
proof -
  from run obtain dC d2C where dC: "np_gradient prices strikes = Inr dC"
    and d2C: "np_gradient dC strikes = Inr d2C"
    by (auto simp: breeden_litzenberger_def split: sum.splits)
  have len: "length d2C = length strikes" "2 \<le> length strikes"
    using np_gradient_length[OF dC] np_gradient_length[OF d2C] by simp_all
  show "2 \<le> length strikes" by (rule len)
  let ?clipped = "np_maximum0 (map (\<lambda>d. exp (r * T) * d) d2C)"
  have "pdf = ?clipped \<or> (\<exists>s. savgol_filter lib ?clipped (window_length ?clipped) 3 = Inr s
                              \<and> pdf = np_maximum0 s)"
    using run dC d2C
    by (auto simp: breeden_litzenberger_def Let_def split: sum.splits if_splits)
  then show "length pdf = length strikes"
    using len same_shape by (auto simp: np_maximum0_def)
qed

lemma fitted_extractor_shape:
  assumes run: "calculate_from_options lib cfg self df spot r T ty m = (Inr (grid, pdf), self')"
    and same_shape: "\<And>a w k s. savgol_filter lib a w k = Inr s \<Longrightarrow> length s = length a"
  shows "stored_strikes self' = Some grid \<and> stored_cdf self' = Some (calculate_cdf grid pdf)
         \<and> length grid = length (calculate_cdf grid pdf) \<and> grid \<noteq> []"
proof -
  from run obtain prices pdf0 where
    bl: "breeden_litzenberger lib grid prices r T = Inr pdf0"
    and norm: "normalize_pdf grid pdf0 = Inr pdf"
    and stored: "stored_strikes self' = Some grid"
      "stored_cdf self' = Some (calculate_cdf grid pdf)"
    by (rule calculate_from_options_success)
  have "length pdf0 = length grid" "2 \<le> length grid"
    using breeden_litzenberger_length[OF bl same_shape] by simp_all
  moreover have "length pdf = length pdf0"
    using norm by (auto simp: normalize_pdf_def Let_def split: if_splits)
  ultimately show ?thesis
    using stored by (auto simp: length_calculate_cdf)
qed





section \<open>The fallback from SABR to the spline\<close>

lemma three_points_valid: "apply_mask three_points = [(90, 1 / 5), (100, 1 / 5), (110, 1 / 5)]"
  by (simp add: apply_mask_def valid_mask_def three_points_def)

text \<open>
  Claim C4 does not hold as stated: when neither attempt of the optimizer reports success,
  \<open>SABRModel.calibrate\<close> raises nothing, so there is no fallback and the SABR model with
  the parameters of the failed optimization is returned, with \<open>success\<close> false.
\<close>

theorem failed_optimization_kept:
  "calibrate_volatility_surface stalled_library three_points 100 1 ''sabr''
   = Inr (SABRModel \<lparr>sabr_beta = SABR_BETA, sabr_alpha = SABR_INITIAL_ALPHA,
                      sabr_rho = SABR_INITIAL_RHO, sabr_nu = SABR_INITIAL_NU,
                      sabr_forward = 100, sabr_tau = 1, is_calibrated = True\<rparr>,
          SabrStats SABR_INITIAL_ALPHA SABR_INITIAL_RHO SABR_INITIAL_NU SABR_BETA
            (fit_rmse (sabr_formula [90, 100, 110] 100 SABR_INITIAL_ALPHA SABR_INITIAL_RHO
                         SABR_INITIAL_NU SABR_BETA 1) [1 / 5, 1 / 5, 1 / 5])
            (fit_mae (sabr_formula [90, 100, 110] 100 SABR_INITIAL_ALPHA SABR_INITIAL_RHO
                         SABR_INITIAL_NU SABR_BETA 1) [1 / 5, 1 / 5, 1 / 5])
            False)"
  by (simp add: calibrate_volatility_surface_def sabr_calibrate_def three_points_valid
      stalled_library_def example_library_def sabr_get_volatility_def Let_def)

lemma sabr_too_few:
  "length (apply_mask pts) < 3 \<Longrightarrow>
   sabr_calibrate lib pts fwd tau = Inl (ValueError ''Need at least 3 valid strikes for calibration'')"
  by (simp add: sabr_calibrate_def Let_def)

lemma sabr_failure_falls_back:
  "sabr_calibrate lib pts fwd tau = Inl e \<Longrightarrow>
   calibrate_volatility_surface lib pts fwd tau ''sabr''
     = calibrate_volatility_surface lib pts fwd tau ''spline''"
  by (simp add: calibrate_volatility_surface_def Let_def)

text \<open>
  Claim C4, amended. Whenever \<open>SABRModel.calibrate\<close> raises (as it does with fewer than 3
  valid points), \<open>calibrate_volatility_surface\<close> catches the exception and runs the spline
  calibration on the same arrays, so the extraction with method \<open>sabr\<close> is then the
  extraction with method \<open>spline\<close>: its result and its errors, none of them from SABR.
\<close>

theorem sabr_failure_retried_with_spline:
  assumes "sabr_calibrate lib (market_points cfg spot df) (spot * exp (r * T)) T = Inl e"
  shows "calculate_from_options lib cfg self df spot r T ty ''sabr''
           = calculate_from_options lib cfg self df spot r T ty ''spline''
         \<and> calibrate_volatility_surface lib (market_points cfg spot df) (spot * exp (r * T)) T ''sabr''
           = calibrate_volatility_surface lib (market_points cfg spot df) (spot * exp (r * T)) T ''spline''
         \<and> (length (apply_mask pts) < 3 \<longrightarrow>
              sabr_calibrate lib pts fwd tau
                = Inl (ValueError ''Need at least 3 valid strikes for calibration''))"
proof -
  have fallback: "calibrate_volatility_surface lib (market_points cfg spot df) (spot * exp (r * T)) T ''sabr''
           = calibrate_volatility_surface lib (market_points cfg spot df) (spot * exp (r * T)) T ''spline''"
    using assms by (rule sabr_failure_falls_back)
  then have "calculate_from_options lib cfg self df spot r T ty ''sabr''
           = calculate_from_options lib cfg self df spot r T ty ''spline''"
    unfolding calculate_from_options_def market_points_def Let_def by simp
  with fallback show ?thesis by (simp add: sabr_too_few)
qed

lemma two_valid_filter:
  "filter_quotes example_constants 1 two_valid_quotes = two_valid_quotes"
  by (simp add: filter_quotes_def example_constants_def two_valid_quotes_def)

lemma two_valid_market_points:
  "market_points example_constants 1 two_valid_quotes
     = [(9 / 10, Fin (1 / 5)), (1, NaN), (11 / 10, Fin (1 / 5))]"
  by (simp add: market_points_def two_valid_filter Let_def) (simp add: two_valid_quotes_def)

lemma two_valid_mask:
  "apply_mask [(9 / 10, Fin (1 / 5)), (1, NaN), (11 / 10, Fin (1 / 5))]
     = [(9 / 10, 1 / 5), (11 / 10, 1 / 5)]"
  by (simp add: apply_mask_def valid_mask_def)

lemma two_valid_sabr_raises:
  "sabr_calibrate example_library (market_points example_constants 1 two_valid_quotes)
     (1 * exp (0 * 1)) 1
   = Inl (ValueError ''Need at least 3 valid strikes for calibration'')"
  by (simp add: two_valid_market_points sabr_calibrate_def two_valid_mask Let_def)

lemma two_valid_spline_calibration:
  "calibrate_volatility_surface example_library
     [(9 / 10, Fin (1 / 5)), (1, NaN), (11 / 10, Fin (1 / 5))] 1 1 ''spline''
   = Inr (CubicSplineInterpolator (\<lambda>k. 1 / 5), SplineStats 0 True)"
  by (simp add: calibrate_volatility_surface_def spline_calibrate_def two_valid_mask
      example_library_def fit_rmse_def np_mean_def Let_def)

lemma two_valid_spline_run:
  "calculate_from_options example_library example_constants init_extractor two_valid_quotes
     1 0 1 ''call'' ''spline''
   = (Inr ([4 / 5, 14 / 15, 16 / 15, 6 / 5], [15 / 8, 45 / 16, 45 / 16, 15 / 8]),
      \<lparr>stored_pdf = Some [15 / 8, 45 / 16, 45 / 16, 15 / 8],
       stored_strikes = Some [4 / 5, 14 / 15, 16 / 15, 6 / 5],
       stored_cdf = Some [0, 5 / 16, 11 / 16, 1],
       stored_spot = Some 1,
       stored_params = Some (0, 1, ''call'')\<rparr>)"
proof -
  have pts: "zip (map strike (sort_key strike two_valid_quotes))
                 (map impliedVolatility (sort_key strike two_valid_quotes))
               = [(9 / 10, Fin (1 / 5)), (1, NaN), (11 / 10, Fin (1 / 5))]"
    by (simp add: two_valid_quotes_def)
  have len: "\<not> length two_valid_quotes < MIN_STRIKES_FOR_PDF example_constants"
    by (simp add: two_valid_quotes_def example_constants_def)
  show ?thesis
    unfolding calculate_from_options_def two_valid_filter Let_def pts
    using len
    by (simp add: two_valid_spline_calibration example_grid example_prices example_density
          example_normalized example_cdf init_extractor_def)
qed

theorem sabr_failure_retried_with_spline_witness:
  "sabr_calibrate example_library (market_points example_constants 1 two_valid_quotes)
     (1 * exp (0 * 1)) 1
   = Inl (ValueError ''Need at least 3 valid strikes for calibration'')
   \<and> calculate_from_options example_library example_constants init_extractor two_valid_quotes
       1 0 1 ''call'' ''sabr''
     = (Inr ([4 / 5, 14 / 15, 16 / 15, 6 / 5], [15 / 8, 45 / 16, 45 / 16, 15 / 8]),
        \<lparr>stored_pdf = Some [15 / 8, 45 / 16, 45 / 16, 15 / 8],
         stored_strikes = Some [4 / 5, 14 / 15, 16 / 15, 6 / 5],
         stored_cdf = Some [0, 5 / 16, 11 / 16, 1],
         stored_spot = Some 1,
         stored_params = Some (0, 1, ''call'')\<rparr>)
   \<and> length (apply_mask [(9 / 10, Fin (1 / 5)), (1, NaN), (11 / 10, Fin (1 / 5))]) < 3"
  using sabr_failure_retried_with_spline [OF two_valid_sabr_raises,
      where self = init_extractor and ty = "''call''"
        and pts = "[(9 / 10, Fin (1 / 5)), (1, NaN), (11 / 10, Fin (1 / 5))]"]
    two_valid_sabr_raises two_valid_spline_run
  by (simp add: two_valid_mask)

text \<open>
  Claim C8 does not hold as stated. Of six entries the mask keeps the two with positive,
  finite implied volatility and positive strike. The SABR calibration raises on them; the
  spline calibration has no count check and succeeds with a library spline that accepts two
  points, as scipy's does; and with method \<open>sabr\<close> the fallback makes the whole
  calibration succeed.
\<close>

theorem spline_accepts_two_points:
  "apply_mask two_valid_points = [(90, 1 / 5), (110, 1 / 5)]
   \<and> spline_calibrate example_library two_valid_points = Inr (\<lambda>k. 1 / 5, SplineStats 0 True)
   \<and> calibrate_volatility_surface example_library two_valid_points 100 1 ''spline''
       = Inr (CubicSplineInterpolator (\<lambda>k. 1 / 5), SplineStats 0 True)
   \<and> sabr_calibrate example_library two_valid_points 100 1
       = Inl (ValueError ''Need at least 3 valid strikes for calibration'')
   \<and> calibrate_volatility_surface example_library two_valid_points 100 1 ''sabr''
       = Inr (CubicSplineInterpolator (\<lambda>k. 1 / 5), SplineStats 0 True)"
proof -
  have mask: "apply_mask two_valid_points = [(90, 1 / 5), (110, 1 / 5)]"
    by (simp add: apply_mask_def valid_mask_def two_valid_points_def)
  have spline: "spline_calibrate example_library two_valid_points
                  = Inr (\<lambda>k. 1 / 5, SplineStats 0 True)"
    by (simp add: spline_calibrate_def mask example_library_def fit_rmse_def np_mean_def Let_def)
  have sabr: "sabr_calibrate example_library two_valid_points 100 1
                = Inl (ValueError ''Need at least 3 valid strikes for calibration'')"
    by (simp add: sabr_calibrate_def mask Let_def)
  show ?thesis
    by (simp add: mask spline sabr calibrate_volatility_surface_def Let_def)
qed

lemma valid_mask_iff: "valid_mask (k, iv) \<longleftrightarrow> (\<exists>v. iv = Fin v \<and> 0 < v) \<and> 0 < k"
  by (cases iv) (auto simp: valid_mask_def)

lemma apply_mask_member:
  "(k, v) \<in> set (apply_mask pts) \<longleftrightarrow> (k, Fin v) \<in> set pts \<and> 0 < v \<and> 0 < k"
proof (induction pts)
  case Nil
  then show ?case by (simp add: apply_mask_def)
next
  case (Cons p pts)
  obtain k' iv where p: "p = (k', iv)" by (cases p)
  have step: "apply_mask (p # pts)
                = (if valid_mask p then (k', finite_value iv) # apply_mask pts else apply_mask pts)"
    by (simp add: apply_mask_def p)
  show ?case
  proof (cases "valid_mask p")
    case True
    then obtain w where "iv = Fin w" "0 < w" "0 < k'"
      using valid_mask_iff[of k' iv] p by auto
    with True Cons.IH step p show ?thesis by auto
  next
    case False
    then have "\<not> ((k, Fin v) = p \<and> 0 < v \<and> 0 < k)"
      using valid_mask_iff[of k "Fin v"] by auto
    with False Cons.IH step show ?thesis by auto
  qed
qed

lemma spline_fails_iff:
  "spline_calibrate lib pts = Inl e \<longleftrightarrow>
   CubicSpline lib (map fst (sort_key fst (apply_mask pts)))
     (map snd (sort_key fst (apply_mask pts))) = Inl e"
  by (auto simp: spline_calibrate_def Let_def split: sum.splits)

text \<open>
  Claim C8, amended. The calibration keeps exactly the entries with a finite, positive
  implied volatility and a positive strike. The SABR path raises whenever fewer than 3 of
  them remain. The spline path has no count check of its own: it raises exactly when the
  library's spline constructor raises on the remaining points, sorted by strike, and then
  with that error.
\<close>

theorem calibration_point_filter:
  "((k, v) \<in> set (apply_mask pts) \<longleftrightarrow> (k, Fin v) \<in> set pts \<and> 0 < v \<and> 0 < k)
   \<and> (length (apply_mask pts) < 3 \<longrightarrow>
        sabr_calibrate lib pts fwd tau
          = Inl (ValueError ''Need at least 3 valid strikes for calibration''))
   \<and> (spline_calibrate lib pts = Inl e \<longleftrightarrow>
        CubicSpline lib (map fst (sort_key fst (apply_mask pts)))
          (map snd (sort_key fst (apply_mask pts))) = Inl e)"
  using apply_mask_member[of k v pts] spline_fails_iff[of lib pts e]
  by (simp add: sabr_too_few)

theorem calibration_point_filter_witness:
  "length (apply_mask two_valid_points) < 3
   \<and> sabr_calibrate example_library two_valid_points 100 1
       = Inl (ValueError ''Need at least 3 valid strikes for calibration'')
   \<and> (110, 1 / 5) \<in> set (apply_mask two_valid_points)
   \<and> (130, Fin (1 / 5)) \<notin> set two_valid_points"
proof -
  have mask: "apply_mask two_valid_points = [(90, 1 / 5), (110, 1 / 5)]"
    by (simp add: apply_mask_def valid_mask_def two_valid_points_def)
  show ?thesis
    using calibration_point_filter [of 110 "1 / 5" two_valid_points example_library 100 1]
    by (simp add: mask) (simp add: two_valid_points_def)
qed

section \<open>Shape similarity\<close>












section \<open>Guards of the statistics\<close>

lemma moments_guarded:
  "calculate_skewness strikes pdf mean_opt (Some 0) = 0"
  "calculate_kurtosis strikes pdf mean_opt (Some 0) = 0"
  by (simp_all add: calculate_skewness_def calculate_kurtosis_def Let_def)

text \<open>
  Claim C7, at an input where the code departs from it: a density that is 0 on the grid
  \<open>[1, 2, 3]\<close>. The standard deviation is 0, and skewness and excess kurtosis return 0
  without dividing. The CDF ends at 0, and \<open>calculate_percentile\<close> divides by that entry:
  the normalised CDF is all NaN and so is the percentile. \<open>_calculate_cdf\<close> of
  breeden\_litz.py tests the same entry and leaves the CDF undivided.
\<close>

theorem percentile_division_unguarded:
  "sqrt (calculate_variance [1, 2, 3] [0, 0, 0] None) = 0
   \<and> calculate_skewness [1, 2, 3] [0, 0, 0] None None = 0
   \<and> calculate_kurtosis [1, 2, 3] [0, 0, 0] None None = 0
   \<and> last (cumulative_trapezoid [0, 0, 0] [1, 2, 3]) = 0
   \<and> percentile_cdf [1, 2, 3] [0, 0, 0] = [NaN, NaN, NaN]
   \<and> calculate_percentile [1, 2, 3] [0, 0, 0] 50 = NaN
   \<and> calculate_cdf [1, 2, 3] [0, 0, 0] = [0, 0, 0]"
  by (simp add: calculate_variance_def calculate_mean_def calculate_skewness_def
      calculate_kurtosis_def percentile_cdf_def calculate_percentile_def calculate_cdf_def
      cumulative_trapezoid_def np_true_divide_def Let_def)

end
